theory Spec2Isabelle
  imports Main "HOL-Library.Sublist" "HOL-Library.List_Lexorder" "HOL-Library.Char_ord"
begin

section \<open>Text: the fragment of Python's \<open>str\<close> that \<open>server.py\<close> uses\<close>

text \<open>
  A Python \<open>str\<close> is a sequence of Unicode code points, here a list of natural
  numbers. \<open>ascii\<close> embeds a literal. The query and every statement sent to the server
  are of this type, since \<open>strip\<close> and \<open>upper\<close> act on all of Unicode. Text that the
  code only passes on (names, messages) stays a \<open>string\<close>.
\<close>

type_synonym pystr = "nat list"

definition ascii :: "string \<Rightarrow> pystr" where
  "ascii s = map of_char s"

text \<open>
  \<open>str.isspace()\<close> of one code point (Unicode 14.0, the data of CPython 3.11).
  \<open>str.strip()\<close> removes such code points from both ends.
\<close>

definition isspace :: "nat \<Rightarrow> bool" where
  "isspace n = ((9 \<le> n \<and> n \<le> 13) \<or> (28 \<le> n \<and> n \<le> 32) \<or> n = 133 \<or> n = 160
     \<or> n = 5760 \<or> (8192 \<le> n \<and> n \<le> 8202) \<or> n = 8232 \<or> n = 8233 \<or> n = 8239
     \<or> n = 8287 \<or> n = 12288)"

definition lstrip :: "pystr \<Rightarrow> pystr" where
  "lstrip s = dropWhile isspace s"

definition rstrip :: "pystr \<Rightarrow> pystr" where
  "rstrip s = rev (dropWhile isspace (rev s))"

definition strip :: "pystr \<Rightarrow> pystr" where
  "strip s = rstrip (lstrip s)"

text \<open>
  \<open>str.upper()\<close> replaces each code point on its own by its full upper-case mapping,
  which may be several code points. Below 128 only \<open>a\<close>..\<open>z\<close> change. From 128 on
  the mapping (again Unicode 14.0) is given by two tables: \<open>uppercase_special\<close> lists
  the code points whose image has more than one code point; \<open>uppercase_runs\<close> lists
  runs \<open>(lo, hi, step, img)\<close>, in which \<open>lo\<close>, \<open>lo + step\<close>, ... up to \<open>hi\<close>
  map to \<open>img\<close>, \<open>img + step\<close>, ... in turn. Every other code point is
  its own image.
\<close>

definition uppercase_special :: "(nat \<times> nat list) list" where
  "uppercase_special =
    [(223, [83, 83]), (329, [700, 78]), (496, [74, 780]), (912, [921, 776, 769]),
     (944, [933, 776, 769]), (1415, [1333, 1362]), (7830, [72, 817]), (7831, [84, 776]),
     (7832, [87, 778]), (7833, [89, 778]), (7834, [65, 702]), (8016, [933, 787]),
     (8018, [933, 787, 768]), (8020, [933, 787, 769]), (8022, [933, 787, 834]),
     (8064, [7944, 921]), (8065, [7945, 921]), (8066, [7946, 921]), (8067, [7947, 921]),
     (8068, [7948, 921]), (8069, [7949, 921]), (8070, [7950, 921]), (8071, [7951, 921]),
     (8072, [7944, 921]), (8073, [7945, 921]), (8074, [7946, 921]), (8075, [7947, 921]),
     (8076, [7948, 921]), (8077, [7949, 921]), (8078, [7950, 921]), (8079, [7951, 921]),
     (8080, [7976, 921]), (8081, [7977, 921]), (8082, [7978, 921]), (8083, [7979, 921]),
     (8084, [7980, 921]), (8085, [7981, 921]), (8086, [7982, 921]), (8087, [7983, 921]),
     (8088, [7976, 921]), (8089, [7977, 921]), (8090, [7978, 921]), (8091, [7979, 921]),
     (8092, [7980, 921]), (8093, [7981, 921]), (8094, [7982, 921]), (8095, [7983, 921]),
     (8096, [8040, 921]), (8097, [8041, 921]), (8098, [8042, 921]), (8099, [8043, 921]),
     (8100, [8044, 921]), (8101, [8045, 921]), (8102, [8046, 921]), (8103, [8047, 921]),
     (8104, [8040, 921]), (8105, [8041, 921]), (8106, [8042, 921]), (8107, [8043, 921]),
     (8108, [8044, 921]), (8109, [8045, 921]), (8110, [8046, 921]), (8111, [8047, 921]),
     (8114, [8122, 921]), (8115, [913, 921]), (8116, [902, 921]), (8118, [913, 834]),
     (8119, [913, 834, 921]), (8124, [913, 921]), (8130, [8138, 921]), (8131, [919, 921]),
     (8132, [905, 921]), (8134, [919, 834]), (8135, [919, 834, 921]), (8140, [919, 921]),
     (8146, [921, 776, 768]), (8147, [921, 776, 769]), (8150, [921, 834]),
     (8151, [921, 776, 834]), (8162, [933, 776, 768]), (8163, [933, 776, 769]),
     (8164, [929, 787]), (8166, [933, 834]), (8167, [933, 776, 834]), (8178, [8186, 921]),
     (8179, [937, 921]), (8180, [911, 921]), (8182, [937, 834]), (8183, [937, 834, 921]),
     (8188, [937, 921]), (64256, [70, 70]), (64257, [70, 73]), (64258, [70, 76]),
     (64259, [70, 70, 73]), (64260, [70, 70, 76]), (64261, [83, 84]), (64262, [83, 84]),
     (64275, [1348, 1350]), (64276, [1348, 1333]), (64277, [1348, 1339]), (64278, [1358, 1350]),
     (64279, [1348, 1341])]"

definition uppercase_runs :: "(nat \<times> nat \<times> nat \<times> nat) list" where
  "uppercase_runs =
    [(181, 181, 1, 924), (224, 246, 1, 192), (248, 254, 1, 216), (255, 255, 1, 376),
     (257, 303, 2, 256), (305, 305, 1, 73), (307, 311, 2, 306), (314, 328, 2, 313),
     (331, 375, 2, 330), (378, 382, 2, 377), (383, 383, 1, 83), (384, 384, 1, 579),
     (387, 389, 2, 386), (392, 392, 1, 391), (396, 396, 1, 395), (402, 402, 1, 401),
     (405, 405, 1, 502), (409, 409, 1, 408), (410, 410, 1, 573), (414, 414, 1, 544),
     (417, 421, 2, 416), (424, 424, 1, 423), (429, 429, 1, 428), (432, 432, 1, 431),
     (436, 438, 2, 435), (441, 441, 1, 440), (445, 445, 1, 444), (447, 447, 1, 503),
     (453, 453, 1, 452), (454, 454, 1, 452), (456, 456, 1, 455), (457, 457, 1, 455),
     (459, 459, 1, 458), (460, 460, 1, 458), (462, 476, 2, 461), (477, 477, 1, 398),
     (479, 495, 2, 478), (498, 498, 1, 497), (499, 499, 1, 497), (501, 501, 1, 500),
     (505, 543, 2, 504), (547, 563, 2, 546), (572, 572, 1, 571), (575, 576, 1, 11390),
     (578, 578, 1, 577), (583, 591, 2, 582), (592, 592, 1, 11375), (593, 593, 1, 11373),
     (594, 594, 1, 11376), (595, 595, 1, 385), (596, 596, 1, 390), (598, 599, 1, 393),
     (601, 601, 1, 399), (603, 603, 1, 400), (604, 604, 1, 42923), (608, 608, 1, 403),
     (609, 609, 1, 42924), (611, 611, 1, 404), (613, 613, 1, 42893), (614, 614, 1, 42922),
     (616, 616, 1, 407), (617, 617, 1, 406), (618, 618, 1, 42926), (619, 619, 1, 11362),
     (620, 620, 1, 42925), (623, 623, 1, 412), (625, 625, 1, 11374), (626, 626, 1, 413),
     (629, 629, 1, 415), (637, 637, 1, 11364), (640, 640, 1, 422), (642, 642, 1, 42949),
     (643, 643, 1, 425), (647, 647, 1, 42929), (648, 648, 1, 430), (649, 649, 1, 580),
     (650, 651, 1, 433), (652, 652, 1, 581), (658, 658, 1, 439), (669, 669, 1, 42930),
     (670, 670, 1, 42928), (837, 837, 1, 921), (881, 883, 2, 880), (887, 887, 1, 886),
     (891, 893, 1, 1021), (940, 940, 1, 902), (941, 943, 1, 904), (945, 961, 1, 913),
     (962, 962, 1, 931), (963, 971, 1, 931), (972, 972, 1, 908), (973, 974, 1, 910),
     (976, 976, 1, 914), (977, 977, 1, 920), (981, 981, 1, 934), (982, 982, 1, 928),
     (983, 983, 1, 975), (985, 1007, 2, 984), (1008, 1008, 1, 922), (1009, 1009, 1, 929),
     (1010, 1010, 1, 1017), (1011, 1011, 1, 895), (1013, 1013, 1, 917), (1016, 1016, 1, 1015),
     (1019, 1019, 1, 1018), (1072, 1103, 1, 1040), (1104, 1119, 1, 1024), (1121, 1153, 2, 1120),
     (1163, 1215, 2, 1162), (1218, 1230, 2, 1217), (1231, 1231, 1, 1216), (1233, 1327, 2, 1232),
     (1377, 1414, 1, 1329), (4304, 4346, 1, 7312), (4349, 4351, 1, 7357), (5112, 5117, 1, 5104),
     (7296, 7296, 1, 1042), (7297, 7297, 1, 1044), (7298, 7298, 1, 1054), (7299, 7300, 1, 1057),
     (7301, 7301, 1, 1058), (7302, 7302, 1, 1066), (7303, 7303, 1, 1122), (7304, 7304, 1, 42570),
     (7545, 7545, 1, 42877), (7549, 7549, 1, 11363), (7566, 7566, 1, 42950),
     (7681, 7829, 2, 7680), (7835, 7835, 1, 7776), (7841, 7935, 2, 7840), (7936, 7943, 1, 7944),
     (7952, 7957, 1, 7960), (7968, 7975, 1, 7976), (7984, 7991, 1, 7992), (8000, 8005, 1, 8008),
     (8017, 8023, 2, 8025), (8032, 8039, 1, 8040), (8048, 8049, 1, 8122), (8050, 8053, 1, 8136),
     (8054, 8055, 1, 8154), (8056, 8057, 1, 8184), (8058, 8059, 1, 8170), (8060, 8061, 1, 8186),
     (8112, 8113, 1, 8120), (8126, 8126, 1, 921), (8144, 8145, 1, 8152), (8160, 8161, 1, 8168),
     (8165, 8165, 1, 8172), (8526, 8526, 1, 8498), (8560, 8575, 1, 8544), (8580, 8580, 1, 8579),
     (9424, 9449, 1, 9398), (11312, 11359, 1, 11264), (11361, 11361, 1, 11360),
     (11365, 11365, 1, 570), (11366, 11366, 1, 574), (11368, 11372, 2, 11367),
     (11379, 11379, 1, 11378), (11382, 11382, 1, 11381), (11393, 11491, 2, 11392),
     (11500, 11502, 2, 11499), (11507, 11507, 1, 11506), (11520, 11557, 1, 4256),
     (11559, 11559, 1, 4295), (11565, 11565, 1, 4301), (42561, 42605, 2, 42560),
     (42625, 42651, 2, 42624), (42787, 42799, 2, 42786), (42803, 42863, 2, 42802),
     (42874, 42876, 2, 42873), (42879, 42887, 2, 42878), (42892, 42892, 1, 42891),
     (42897, 42899, 2, 42896), (42900, 42900, 1, 42948), (42903, 42921, 2, 42902),
     (42933, 42947, 2, 42932), (42952, 42954, 2, 42951), (42961, 42961, 1, 42960),
     (42967, 42969, 2, 42966), (42998, 42998, 1, 42997), (43859, 43859, 1, 42931),
     (43888, 43967, 1, 5024), (65345, 65370, 1, 65313), (66600, 66639, 1, 66560),
     (66776, 66811, 1, 66736), (66967, 67003, 2, 66928), (66968, 66976, 2, 66929),
     (66980, 66992, 2, 66941), (66996, 67000, 2, 66957), (67004, 67004, 1, 66965),
     (68800, 68850, 1, 68736), (71872, 71903, 1, 71840), (93792, 93823, 1, 93760),
     (125218, 125251, 1, 125184)]"

definition in_run :: "nat \<Rightarrow> nat \<times> nat \<times> nat \<times> nat \<Rightarrow> bool" where
  "in_run n r = (case r of (lo, hi, step, img) \<Rightarrow>
     lo \<le> n \<and> n \<le> hi \<and> (n - lo) mod step = 0)"

definition upper_char :: "nat \<Rightarrow> pystr" where
  "upper_char n =
     (if n < 128 then (if 97 \<le> n \<and> n \<le> 122 then [n - 32] else [n])
      else case map_of uppercase_special n of
        Some u \<Rightarrow> u
      | None \<Rightarrow> (case find (in_run n) uppercase_runs of
          Some (lo, hi, step, img) \<Rightarrow> [img + (n - lo)]
        | None \<Rightarrow> [n]))"

definition upper :: "pystr \<Rightarrow> pystr" where
  "upper s = concat (map upper_char s)"

text \<open>\<open>s.startswith(t)\<close> for a tuple \<open>t\<close>: some member of the tuple is a prefix of \<open>s\<close>.\<close>

definition startswith :: "pystr \<Rightarrow> pystr list \<Rightarrow> bool" where
  "startswith s ps = list_ex (\<lambda>p. prefix p s) ps"

text \<open>\<open>str(n)\<close> for an integer: decimal digits, with a minus sign when negative.\<close>

definition digit :: "nat \<Rightarrow> char" where
  "digit d = ''0123456789'' ! d"

fun str_nat :: "nat \<Rightarrow> string" where
  "str_nat n = (if n < 10 then [digit n]
                else str_nat (n div 10) @ [digit (n mod 10)])"

declare str_nat.simps [simp del]

definition str_int :: "int \<Rightarrow> string" where
  "str_int i = (if i < 0 then CHR ''-'' # str_nat (nat (- i)) else str_nat (nat i))"

section \<open>The read-only classifier\<close>

definition safe_starts :: "pystr list" where
  "safe_starts = map ascii [''SELECT'', ''SHOW'', ''DESCRIBE'', ''EXPLAIN'', ''WITH'']"

definition is_read_only_query :: "pystr \<Rightarrow> bool" where
  "is_read_only_query query = (let query_upper = upper (strip query) in
     startswith query_upper safe_starts)"

section \<open>Configuration\<close>

text \<open>
  \<open>config\<close> is the dictionary that \<open>json.load\<close> returns. A key may be absent
  (\<open>None\<close>); a key that is present holds a value of the type the server expects for it.
  \<open>config.get(k, d)\<close> is \<open>get_or\<close>; \<open>config[k]\<close> is \<open>item\<close>, which raises
  \<open>KeyError(k)\<close> when the key is absent.
\<close>

record config =
  host :: "string option"
  port :: "int option"
  user :: "string option"
  password :: "string option"
  read_only :: "bool option"
  query_timeout :: "int option"
  max_rows :: "int option"

text \<open>
  Exceptions carry the text that \<open>str(e)\<close> gives. \<open>Psycopg2Error\<close> stands for
  \<open>psycopg2.Error\<close> and its subclasses, \<open>OtherException\<close> for every other subclass
  of \<open>Exception\<close>.
\<close>

datatype exn = Psycopg2Error string | OtherException string

definition get_or :: "'a option \<Rightarrow> 'a \<Rightarrow> 'a" where
  "get_or v d = (case v of None \<Rightarrow> d | Some x \<Rightarrow> x)"

definition item :: "string \<Rightarrow> 'a option \<Rightarrow> exn + 'a" where
  "item key v = (case v of
     None \<Rightarrow> Inl (OtherException ([CHR 0x27] @ key @ [CHR 0x27]))
   | Some x \<Rightarrow> Inr x)"

subsection \<open>Loading the configuration at start-up\<close>

text \<open>
  What \<open>open('config.json')\<close> followed by \<open>json.load\<close> finds: no file, text that is
  not JSON, or a JSON object. \<open>load_config\<close> logs and re-raises the two failures; the
  module-level assignment \<open>config = load_config()\<close> runs before \<open>mcp.run\<close>, so an
  exception there ends the process before it serves.
\<close>

datatype config_file = Missing | Invalid string | Document config

datatype startup_error = FileNotFoundError | JSONDecodeError string

datatype process = Crashed startup_error | Serving config

definition load_config :: "config_file \<Rightarrow> startup_error + config" where
  "load_config f = (case f of
     Missing \<Rightarrow> Inl FileNotFoundError
   | Invalid e \<Rightarrow> Inl (JSONDecodeError e)
   | Document c \<Rightarrow> Inr c)"

definition main :: "config_file \<Rightarrow> process" where
  "main f = (case load_config f of
     Inl e \<Rightarrow> Crashed e
   | Inr config \<Rightarrow> Serving config)"

definition required_present :: "config \<Rightarrow> bool" where
  "required_present c = (host c \<noteq> None \<and> port c \<noteq> None \<and> user c \<noteq> None \<and> password c \<noteq> None)"

section \<open>The database driver and server\<close>

text \<open>
  A cell value, a row as \<open>RealDictCursor\<close> delivers it (column name to value, in column
  order), and what a statement leaves in the cursor: a result set with its column
  names and all its rows, or a command status with the affected-row count when the
  server reports one.
\<close>

datatype sqlval = Null | Number int | Text string | Boolean bool

type_synonym row = "(string \<times> sqlval) list"

datatype outcome = Tuples "string list" "row list" | Command "int option"

text \<open>
  \<open>cursor.description\<close> is \<open>None\<close> after a command and the sequence of columns after
  a result set. \<open>cursor.rowcount\<close> of a client-side cursor is the number of rows of the
  result set, the reported count of a command, and \<open>-1\<close> where the server reports none.
\<close>

definition description :: "outcome \<Rightarrow> string list option" where
  "description out = (case out of Tuples cols rs \<Rightarrow> Some cols | Command n \<Rightarrow> None)"

definition rowcount :: "outcome \<Rightarrow> int" where
  "rowcount out = (case out of
     Tuples cols rs \<Rightarrow> int (length rs)
   | Command None \<Rightarrow> - 1
   | Command (Some n) \<Rightarrow> n)"

text \<open>Python's truth value of \<open>cursor.description\<close>: \<open>None\<close> and the empty sequence are false.\<close>

definition truthy :: "string list option \<Rightarrow> bool" where
  "truthy d = (case d of None \<Rightarrow> False | Some cols \<Rightarrow> cols \<noteq> [])"

record connect_args =
  arg_host :: string
  arg_port :: int
  arg_database :: string
  arg_user :: string
  arg_password :: string
  connect_timeout :: int

text \<open>
  The server as one call sees it: whether a connection attempt fails, what each
  statement text produces, and whether the commit fails.
\<close>

record server =
  connect_fault :: "connect_args \<Rightarrow> exn option"
  respond :: "pystr \<Rightarrow> exn + outcome"
  commit_fault :: "exn option"

text \<open>
  Every call of the driver is recorded, in order. Calls of the logger change neither
  a result nor the driver's state and are left out.
\<close>

datatype event =
    Connect connect_args
  | OpenCursor
  | Execute pystr
  | FetchMany int
  | FetchAll
  | Commit
  | CloseCursor
  | CloseConn

type_synonym 'a io = "event list \<Rightarrow> (exn + 'a) \<times> event list"

definition ret :: "'a \<Rightarrow> 'a io" where
  "ret x = (\<lambda>tr. (Inr x, tr))"

definition raise :: "exn \<Rightarrow> 'a io" where
  "raise e = (\<lambda>tr. (Inl e, tr))"

definition lift :: "exn + 'a \<Rightarrow> 'a io" where
  "lift r = (\<lambda>tr. (r, tr))"

definition emit :: "event \<Rightarrow> unit io" where
  "emit ev = (\<lambda>tr. (Inr (), tr @ [ev]))"

definition bind_io :: "'a io \<Rightarrow> ('a \<Rightarrow> 'b io) \<Rightarrow> 'b io" where
  "bind_io m f = (\<lambda>tr. case m tr of
     (Inl e, tr') \<Rightarrow> (Inl e, tr')
   | (Inr x, tr') \<Rightarrow> f x tr')"

definition psycopg2_connect :: "server \<Rightarrow> connect_args \<Rightarrow> unit io" where
  "psycopg2_connect srv args = bind_io (emit (Connect args)) (\<lambda>_.
     case connect_fault srv args of Some e \<Rightarrow> raise e | None \<Rightarrow> ret ())"

definition conn_cursor :: "unit io" where
  "conn_cursor = emit OpenCursor"

definition cursor_execute :: "server \<Rightarrow> pystr \<Rightarrow> outcome io" where
  "cursor_execute srv stmt = bind_io (emit (Execute stmt)) (\<lambda>_. lift (respond srv stmt))"

text \<open>
  \<open>fetchmany(size)\<close> of psycopg2 on a fresh result. The size is first converted to a
  C \<open>long\<close>, taken as 64 bits wide; a size outside its range raises \<open>OverflowError\<close>.
  After a command there is nothing to fetch and the driver raises. Otherwise a
  negative size, or one larger than the number of rows, is replaced by the number of
  rows.
\<close>

definition fits_long :: "int \<Rightarrow> bool" where
  "fits_long n = (- (2 ^ 63) \<le> n \<and> n < 2 ^ 63)"

definition fetchmany_rows :: "int \<Rightarrow> row list \<Rightarrow> row list" where
  "fetchmany_rows sz rs = (if sz < 0 \<or> int (length rs) < sz then rs else take (nat sz) rs)"

definition cursor_fetchmany :: "int \<Rightarrow> outcome \<Rightarrow> row list io" where
  "cursor_fetchmany sz out = bind_io (emit (FetchMany sz)) (\<lambda>_.
     if \<not> fits_long sz then
       raise (OtherException ''Python int too large to convert to C long'')
     else case out of
       Tuples cols rs \<Rightarrow> ret (fetchmany_rows sz rs)
     | Command n \<Rightarrow> raise (Psycopg2Error ''no results to fetch''))"

definition cursor_fetchall :: "outcome \<Rightarrow> row list io" where
  "cursor_fetchall out = bind_io (emit FetchAll) (\<lambda>_.
     case out of
       Tuples cols rs \<Rightarrow> ret rs
     | Command n \<Rightarrow> raise (Psycopg2Error ''no results to fetch''))"

definition conn_commit :: "server \<Rightarrow> unit io" where
  "conn_commit srv = bind_io (emit Commit) (\<lambda>_.
     case commit_fault srv of Some e \<Rightarrow> raise e | None \<Rightarrow> ret ())"

definition cursor_close :: "unit io" where
  "cursor_close = emit CloseCursor"

definition conn_close :: "unit io" where
  "conn_close = emit CloseConn"

section \<open>\<open>get_connection\<close>\<close>

text \<open>
  The keyword arguments are evaluated in the order written, so the first absent key
  raises. The handler for \<open>psycopg2.Error\<close> logs and re-raises the same exception, which
  leaves the result as it is.
\<close>

definition get_connection :: "config \<Rightarrow> server \<Rightarrow> string \<Rightarrow> unit io" where
  "get_connection config srv database =
     bind_io (lift (item ''host'' (host config))) (\<lambda>h.
     bind_io (lift (item ''port'' (port config))) (\<lambda>p.
     bind_io (lift (item ''user'' (user config))) (\<lambda>u.
     bind_io (lift (item ''password'' (password config))) (\<lambda>pw.
     psycopg2_connect srv
       \<lparr>arg_host = h, arg_port = p, arg_database = database, arg_user = u,
        arg_password = pw, connect_timeout = get_or (query_timeout config) 30\<rparr>))))"

section \<open>\<open>list_databases\<close>\<close>

record listing =
  listing_status :: string
  listing_message :: "string option"
  databases :: "sqlval list"
  count :: "int option"

definition list_databases_query :: pystr where
  "list_databases_query = ascii
     ([CHR 0x0A] @ ''            SELECT datname as database_name '' @
      [CHR 0x0A] @ ''            FROM pg_database '' @
      [CHR 0x0A] @ ''            WHERE datistemplate = false '' @
      [CHR 0x0A] @ ''            ORDER BY datname'' @
      [CHR 0x0A] @ ''        '')"

text \<open>\<open>[row['database_name'] for row in results]\<close>: the first row without the key raises.\<close>

fun database_names :: "row list \<Rightarrow> exn + sqlval list" where
  "database_names [] = Inr []"
| "database_names (r # rs) = (case item ''database_name'' (map_of r ''database_name'') of
     Inl e \<Rightarrow> Inl e
   | Inr v \<Rightarrow> (case database_names rs of Inl e \<Rightarrow> Inl e | Inr vs \<Rightarrow> Inr (v # vs)))"

definition list_databases_try :: "config \<Rightarrow> server \<Rightarrow> listing io" where
  "list_databases_try config srv =
     bind_io (get_connection config srv ''postgres'') (\<lambda>conn.
     bind_io conn_cursor (\<lambda>cursor.
     bind_io (cursor_execute srv list_databases_query) (\<lambda>cur.
     bind_io (cursor_fetchall cur) (\<lambda>results.
     bind_io cursor_close (\<lambda>_.
     bind_io conn_close (\<lambda>_.
     bind_io (lift (database_names results)) (\<lambda>names.
     ret \<lparr>listing_status = ''success'', listing_message = None,
          databases = names, count = Some (int (length names))\<rparr>)))))))"

definition str_exn :: "exn \<Rightarrow> string" where
  "str_exn e = (case e of Psycopg2Error m \<Rightarrow> m | OtherException m \<Rightarrow> m)"

text \<open>\<open>except Exception as e\<close>: both kinds of exception are handled the same way.\<close>

definition list_databases :: "config \<Rightarrow> server \<Rightarrow> listing \<times> event list" where
  "list_databases config srv = (case list_databases_try config srv [] of
     (Inr r, tr) \<Rightarrow> (r, tr)
   | (Inl e, tr) \<Rightarrow>
       (\<lparr>listing_status = ''error'', listing_message = Some (str_exn e),
         databases = [], count = None\<rparr>, tr))"

section \<open>\<open>execute_sql\<close>\<close>

record response =
  status :: string
  message :: string
  rows :: "row list"
  row_count :: int
  columns :: "string list"

definition execute_sql_try :: "config \<Rightarrow> server \<Rightarrow> string \<Rightarrow> pystr \<Rightarrow> response io" where
  "execute_sql_try config srv database query =
     (if get_or (read_only config) False \<and> \<not> is_read_only_query query then
        ret \<lparr>status = ''error'',
             message = ''Server is in read-only mode. Only SELECT queries are allowed.'',
             rows = [], row_count = 0, columns = []\<rparr>
      else
        bind_io (get_connection config srv database) (\<lambda>conn.
        bind_io conn_cursor (\<lambda>cursor.
        let timeout_ms = get_or (query_timeout config) 30 * 1000 in
        bind_io (cursor_execute srv (ascii (''SET statement_timeout = '' @ str_int timeout_ms)))
          (\<lambda>_.
        bind_io (cursor_execute srv query) (\<lambda>cur.
        if truthy (description cur) then
          let columns' = the (description cur);
              max_rows' = get_or (max_rows config) 1000 in
          bind_io (cursor_fetchmany max_rows' cur) (\<lambda>results.
          let row_count' = int (length results);
              message0 = ''Query executed successfully. Returned '' @ str_int row_count' @ '' rows.'';
              message1 = (if rowcount cur > max_rows'
                        then message0 @ '' (Limited to '' @ str_int max_rows' @ '' rows)''
                        else message0) in
          bind_io cursor_close (\<lambda>_.
          bind_io conn_close (\<lambda>_.
          ret \<lparr>status = ''success'', message = message1, rows = results,
               row_count = row_count', columns = columns'\<rparr>)))
        else
          bind_io (conn_commit srv) (\<lambda>_.
          let row_count' = rowcount cur in
          bind_io cursor_close (\<lambda>_.
          bind_io conn_close (\<lambda>_.
          ret \<lparr>status = ''success'',
               message = ''Query executed successfully. '' @ str_int row_count' @ '' rows affected.'',
               rows = [], row_count = row_count', columns = []\<rparr>))))))))"

text \<open>The two \<open>except\<close> clauses, tried in order.\<close>

definition failure :: "exn \<Rightarrow> response" where
  "failure e = (case e of
     Psycopg2Error m \<Rightarrow>
       \<lparr>status = ''error'', message = ''Database error: '' @ m,
        rows = [], row_count = 0, columns = []\<rparr>
   | OtherException m \<Rightarrow>
       \<lparr>status = ''error'', message = ''Error: '' @ m,
        rows = [], row_count = 0, columns = []\<rparr>)"

definition execute_sql ::
  "config \<Rightarrow> server \<Rightarrow> string \<Rightarrow> pystr \<Rightarrow> response \<times> event list" where
  "execute_sql config srv database query =
     (case execute_sql_try config srv database query [] of
        (Inr r, tr) \<Rightarrow> (r, tr)
      | (Inl e, tr) \<Rightarrow> (failure e, tr))"

section \<open>Counting acquisitions and releases\<close>

fun is_connect :: "event \<Rightarrow> bool" where
  "is_connect (Connect a) = True"
| "is_connect _ = False"

definition acquisitions :: "event list \<Rightarrow> nat" where
  "acquisitions tr = length (filter is_connect tr)"

definition releases :: "event list \<Rightarrow> nat" where
  "releases tr = length (filter (\<lambda>ev. ev = CloseConn) tr)"

section \<open>The catalogue query as the server evaluates it\<close>

text \<open>
  The server's side of \<open>list_databases\<close>. The catalogue \<open>pg_database\<close> is a list of
  (\<open>datname\<close>, \<open>datistemplate\<close>) pairs. \<open>pg_eval\<close> evaluates the statement text it is
  given, for the fragment of SQL

    \<open>SELECT column [AS name] FROM pg_database [WHERE datistemplate = false | true]
      [ORDER BY datname [ASC | DESC]]\<close>

  with \<open>column\<close> one of \<open>datname\<close>, \<open>datistemplate\<close>. Words are separated by white
  space; key words and names are compared after folding \<open>A\<close>..\<open>Z\<close> to lower case.
  Without \<open>WHERE\<close> every entry is kept, without \<open>ORDER BY\<close> the entries come in the
  order of the catalogue. Text outside the fragment is answered with a syntax error;
  nothing is proved from that.
\<close>

definition sql_space :: "nat \<Rightarrow> bool" where
  "sql_space n = (n = 32 \<or> (9 \<le> n \<and> n \<le> 13))"

fun sql_tokens_from :: "pystr \<Rightarrow> pystr \<Rightarrow> pystr list" where
  "sql_tokens_from acc [] = (if acc = [] then [] else [rev acc])"
| "sql_tokens_from acc (x # xs) =
     (if sql_space x then
        (if acc = [] then sql_tokens_from [] xs else rev acc # sql_tokens_from [] xs)
      else sql_tokens_from (x # acc) xs)"

definition sql_tokens :: "pystr \<Rightarrow> pystr list" where
  "sql_tokens s = sql_tokens_from [] s"

definition sql_fold :: "pystr \<Rightarrow> pystr" where
  "sql_fold t = map (\<lambda>n. if 65 \<le> n \<and> n \<le> 90 then n + 32 else n) t"

definition word :: "string \<Rightarrow> pystr \<Rightarrow> bool" where
  "word w t = (sql_fold t = ascii w)"

datatype pg_column = Datname | Datistemplate

record pg_select =
  sel_column :: pg_column
  sel_name :: string
  sel_where :: "bool option"
  sel_desc :: "bool option"

definition column_of :: "pystr \<Rightarrow> pg_column option" where
  "column_of t = (if word ''datname'' t then Some Datname
                  else if word ''datistemplate'' t then Some Datistemplate
                  else None)"

definition column_name :: "pg_column \<Rightarrow> string" where
  "column_name col = (case col of Datname \<Rightarrow> ''datname'' | Datistemplate \<Rightarrow> ''datistemplate'')"

definition parse_order ::
  "pg_column \<Rightarrow> string \<Rightarrow> bool option \<Rightarrow> pystr list \<Rightarrow> pg_select option" where
  "parse_order col name wh ts = (case ts of
     [] \<Rightarrow> Some \<lparr>sel_column = col, sel_name = name, sel_where = wh, sel_desc = None\<rparr>
   | [t1, t2, t3] \<Rightarrow>
       if word ''order'' t1 \<and> word ''by'' t2 \<and> word ''datname'' t3
       then Some \<lparr>sel_column = col, sel_name = name, sel_where = wh, sel_desc = Some False\<rparr>
       else None
   | [t1, t2, t3, t4] \<Rightarrow>
       if word ''order'' t1 \<and> word ''by'' t2 \<and> word ''datname'' t3
       then (if word ''asc'' t4
             then Some \<lparr>sel_column = col, sel_name = name, sel_where = wh,
                        sel_desc = Some False\<rparr>
             else if word ''desc'' t4
             then Some \<lparr>sel_column = col, sel_name = name, sel_where = wh,
                        sel_desc = Some True\<rparr>
             else None)
       else None
   | _ \<Rightarrow> None)"

definition parse_where :: "pg_column \<Rightarrow> string \<Rightarrow> pystr list \<Rightarrow> pg_select option" where
  "parse_where col name ts = (case ts of
     t1 # t2 # t3 # t4 # rest \<Rightarrow>
       if word ''where'' t1 then
         (if word ''datistemplate'' t2 \<and> t3 = ascii ''='' then
            (if word ''false'' t4 then parse_order col name (Some False) rest
             else if word ''true'' t4 then parse_order col name (Some True) rest
             else None)
          else None)
       else parse_order col name None ts
   | _ \<Rightarrow> parse_order col name None ts)"

definition parse_from :: "pg_column \<Rightarrow> string \<Rightarrow> pystr list \<Rightarrow> pg_select option" where
  "parse_from col name ts = (case ts of
     t1 # t2 # rest \<Rightarrow>
       if word ''from'' t1 \<and> word ''pg_database'' t2 then parse_where col name rest else None
   | _ \<Rightarrow> None)"

definition parse_select :: "pystr list \<Rightarrow> pg_select option" where
  "parse_select ts = (case ts of
     t1 # t2 # rest \<Rightarrow>
       if word ''select'' t1 then
         (case column_of t2 of
            None \<Rightarrow> None
          | Some col \<Rightarrow>
              (case rest of
                 t3 # t4 # rest' \<Rightarrow>
                   if word ''as'' t3 then parse_from col (map char_of (sql_fold t4)) rest'
                   else parse_from col (column_name col) rest
               | _ \<Rightarrow> parse_from col (column_name col) rest))
       else None
   | _ \<Rightarrow> None)"

definition pg_rows :: "pg_select \<Rightarrow> (string \<times> bool) list \<Rightarrow> (string \<times> bool) list" where
  "pg_rows q pg_database =
     (let kept = (case sel_where q of
                    None \<Rightarrow> pg_database
                  | Some b \<Rightarrow> filter (\<lambda>d. snd d = b) pg_database)
      in case sel_desc q of
           None \<Rightarrow> kept
         | Some False \<Rightarrow> sort_key fst kept
         | Some True \<Rightarrow> rev (sort_key fst kept))"

definition pg_cell :: "pg_column \<Rightarrow> string \<times> bool \<Rightarrow> sqlval" where
  "pg_cell col d = (case col of Datname \<Rightarrow> Text (fst d) | Datistemplate \<Rightarrow> Boolean (snd d))"

definition pg_eval :: "(string \<times> bool) list \<Rightarrow> pystr \<Rightarrow> exn + outcome" where
  "pg_eval pg_database stmt = (case parse_select (sql_tokens stmt) of
     None \<Rightarrow> Inl (Psycopg2Error ''syntax error'')
   | Some q \<Rightarrow>
       Inr (Tuples [sel_name q]
         (map (\<lambda>d. [(sel_name q, pg_cell (sel_column q) d)]) (pg_rows q pg_database))))"

text \<open>The names of the databases that are not templates, in ascending order.\<close>

definition pg_database_names :: "(string \<times> bool) list \<Rightarrow> string list" where
  "pg_database_names pg_database = sort (map fst (filter (\<lambda>d. \<not> snd d) pg_database))"

section \<open>Concrete configurations and servers\<close>

definition example_config :: config where
  "example_config =
     \<lparr>host = Some ''localhost'', port = Some 5432, user = Some ''postgres'',
      password = Some ''secret'', read_only = None, query_timeout = None, max_rows = None\<rparr>"

definition read_only_config :: config where
  "read_only_config = example_config\<lparr>read_only := Some True\<rparr>"

definition empty_config :: config where
  "empty_config =
     \<lparr>host = None, port = None, user = None, password = None, read_only = None,
      query_timeout = None, max_rows = None\<rparr>"




definition t_empty_rows :: "row list" where
  "t_empty_rows = [[], [], [], [], []]"

definition t_rows :: "row list" where
  "t_rows = map (\<lambda>i. [(''id'', Number i)]) [1, 2, 3, 4, 5]"

definition example_catalog :: "(string \<times> bool) list" where
  "example_catalog =
     [(''template1'', True), (''sales'', False), (''postgres'', False), (''template0'', True),
      (''hr'', False)]"

definition example_respond :: "pystr \<Rightarrow> exn + outcome" where
  "example_respond stmt =
     (if stmt = ascii ''SELECT id FROM t ORDER BY id'' then Inr (Tuples [''id''] t_rows)
      else if stmt = ascii ''SELECT FROM t'' then Inr (Tuples [] t_empty_rows)
      else if stmt = ascii ''INSERT INTO t(x) VALUES (1)'' then Inr (Command (Some 1))
      else if stmt = ascii ''CREATE TABLE u (x int)'' then Inr (Command None)
      else if stmt = ascii ''DO $$BEGIN INSERT INTO t(x) VALUES (1); END$$''
        then Inr (Command None)
      else if stmt = ascii ''SELEC 1'' then Inl (Psycopg2Error ''syntax error at or near SELEC'')
      else if stmt = list_databases_query then pg_eval example_catalog stmt
      else Inr (Command None))"

definition example_server :: server where
  "example_server =
     \<lparr>connect_fault = (\<lambda>args. None), respond = example_respond, commit_fault = None\<rparr>"


definition failing_server :: server where
  "failing_server =
     \<lparr>connect_fault = (\<lambda>args. None),
      respond = (\<lambda>stmt. Inl (Psycopg2Error ''permission denied'')),
      commit_fault = None\<rparr>"

text \<open>A server on which a deferred constraint makes every commit fail.\<close>

definition deferred_server :: server where
  "deferred_server =
     \<lparr>connect_fault = (\<lambda>args. None), respond = example_respond,
      commit_fault = Some (Psycopg2Error ''violates foreign key constraint'')\<rparr>"

section \<open>Vocabulary for the statements\<close>

text \<open>
  The arguments \<open>get_connection\<close> passes to the driver when every required key is
  present, the condition under which \<open>execute_sql\<close> goes past its read-only check, and
  the text of the statement that sets the timeout.
\<close>

definition connect_args_of :: "config \<Rightarrow> string \<Rightarrow> connect_args" where
  "connect_args_of c database =
     \<lparr>arg_host = the (host c), arg_port = the (port c), arg_database = database,
      arg_user = the (user c), arg_password = the (password c),
      connect_timeout = get_or (query_timeout c) 30\<rparr>"

definition passes_gate :: "config \<Rightarrow> pystr \<Rightarrow> bool" where
  "passes_gate c query = (\<not> (get_or (read_only c) False \<and> \<not> is_read_only_query query))"

definition set_timeout_stmt :: "config \<Rightarrow> pystr" where
  "set_timeout_stmt c =
     ascii (''SET statement_timeout = '' @ str_int (get_or (query_timeout c) 30 * 1000))"

definition truncation_note :: "config \<Rightarrow> string" where
  "truncation_note c = '' (Limited to '' @ str_int (get_or (max_rows c) 1000) @ '' rows)''"

section \<open>The paths through \<open>get_connection\<close> and \<open>execute_sql\<close>\<close>

lemmas io_defs = ret_def raise_def lift_def emit_def bind_io_def psycopg2_connect_def
  conn_cursor_def cursor_execute_def cursor_fetchmany_def cursor_fetchall_def
  conn_commit_def cursor_close_def conn_close_def

lemma get_connection_present:
  "required_present c \<Longrightarrow>
   get_connection c srv database tr =
     (case connect_fault srv (connect_args_of c database) of
        None \<Rightarrow> (Inr (), tr @ [Connect (connect_args_of c database)])
      | Some e \<Rightarrow> (Inl e, tr @ [Connect (connect_args_of c database)]))"
  by (auto simp: required_present_def get_connection_def connect_args_of_def item_def io_defs
      split: option.splits)

lemma get_connection_absent:
  "\<not> required_present c \<Longrightarrow>
   \<exists>k. get_connection c srv database tr = (Inl (OtherException k), tr)"
  by (auto simp: required_present_def get_connection_def item_def io_defs split: option.splits)

lemma execute_sql_rejected:
  assumes "\<not> passes_gate c query"
  shows "execute_sql c srv database query =
     (\<lparr>status = ''error'',
       message = ''Server is in read-only mode. Only SELECT queries are allowed.'',
       rows = [], row_count = 0, columns = []\<rparr>, [])"
  using assms
  by (simp add: execute_sql_def execute_sql_try_def passes_gate_def ret_def)

lemma execute_sql_key_absent:
  assumes "passes_gate c query" "\<not> required_present c"
  shows "\<exists>k. execute_sql c srv database query = (failure (OtherException k), [])"
proof -
  from get_connection_absent [OF assms(2)]
  obtain k where "get_connection c srv database [] = (Inl (OtherException k), [])"
    by blast
  with assms(1) have "execute_sql c srv database query = (failure (OtherException k), [])"
    by (auto simp add: execute_sql_def execute_sql_try_def passes_gate_def bind_io_def)
  then show ?thesis ..
qed

lemma execute_sql_connect_fails:
  assumes "passes_gate c query" "required_present c"
    and "connect_fault srv (connect_args_of c database) = Some e"
  shows "execute_sql c srv database query =
     (failure e, [Connect (connect_args_of c database)])"
  using assms
  by (auto simp add: execute_sql_def execute_sql_try_def passes_gate_def
      get_connection_present bind_io_def)

lemma execute_sql_timeout_fails:
  assumes "passes_gate c query" "required_present c"
    and "connect_fault srv (connect_args_of c database) = None"
    and "respond srv (set_timeout_stmt c) = Inl e"
  shows "execute_sql c srv database query =
     (failure e,
      [Connect (connect_args_of c database), OpenCursor, Execute (set_timeout_stmt c)])"
  using assms
  by (auto simp add: execute_sql_def execute_sql_try_def passes_gate_def
      get_connection_present set_timeout_stmt_def io_defs Let_def)

lemma execute_sql_statement_fails:
  assumes "passes_gate c query" "required_present c"
    and "connect_fault srv (connect_args_of c database) = None"
    and "respond srv (set_timeout_stmt c) = Inr o1"
    and "respond srv query = Inl e"
  shows "execute_sql c srv database query =
     (failure e,
      [Connect (connect_args_of c database), OpenCursor, Execute (set_timeout_stmt c),
       Execute query])"
  using assms
  by (auto simp add: execute_sql_def execute_sql_try_def passes_gate_def
      get_connection_present set_timeout_stmt_def io_defs Let_def)

lemma execute_sql_rows:
  assumes "passes_gate c query" "required_present c"
    and "connect_fault srv (connect_args_of c database) = None"
    and "respond srv (set_timeout_stmt c) = Inr o1"
    and "respond srv query = Inr (Tuples cols rs)" "cols \<noteq> []"
    and "fits_long (get_or (max_rows c) 1000)"
  shows "execute_sql c srv database query =
     (\<lparr>status = ''success'',
       message = ''Query executed successfully. Returned ''
          @ str_int (int (length (fetchmany_rows (get_or (max_rows c) 1000) rs))) @ '' rows.''
          @ (if get_or (max_rows c) 1000 < int (length rs) then truncation_note c else []),
       rows = fetchmany_rows (get_or (max_rows c) 1000) rs,
       row_count = int (length (fetchmany_rows (get_or (max_rows c) 1000) rs)),
       columns = cols\<rparr>,
      [Connect (connect_args_of c database), OpenCursor, Execute (set_timeout_stmt c),
       Execute query, FetchMany (get_or (max_rows c) 1000), CloseCursor, CloseConn])"
  using assms
  by (auto simp add: execute_sql_def execute_sql_try_def passes_gate_def
      get_connection_present set_timeout_stmt_def truncation_note_def truthy_def
      description_def rowcount_def io_defs Let_def)

lemma execute_sql_command:
  assumes "passes_gate c query" "required_present c"
    and "connect_fault srv (connect_args_of c database) = None"
    and "respond srv (set_timeout_stmt c) = Inr o1"
    and "respond srv query = Inr cur" "\<not> truthy (description cur)"
    and "commit_fault srv = None"
  shows "execute_sql c srv database query =
     (\<lparr>status = ''success'',
       message = ''Query executed successfully. '' @ str_int (rowcount cur) @ '' rows affected.'',
       rows = [], row_count = rowcount cur, columns = []\<rparr>,
      [Connect (connect_args_of c database), OpenCursor, Execute (set_timeout_stmt c),
       Execute query, Commit, CloseCursor, CloseConn])"
  using assms
  by (auto simp add: execute_sql_def execute_sql_try_def passes_gate_def
      get_connection_present set_timeout_stmt_def io_defs Let_def)

lemma execute_sql_commit_fails:
  assumes "passes_gate c query" "required_present c"
    and "connect_fault srv (connect_args_of c database) = None"
    and "respond srv (set_timeout_stmt c) = Inr o1"
    and "respond srv query = Inr cur" "\<not> truthy (description cur)"
    and "commit_fault srv = Some e"
  shows "execute_sql c srv database query =
     (failure e,
      [Connect (connect_args_of c database), OpenCursor, Execute (set_timeout_stmt c),
       Execute query, Commit])"
  using assms
  by (auto simp add: execute_sql_def execute_sql_try_def passes_gate_def
      get_connection_present set_timeout_stmt_def io_defs Let_def)

lemma execute_sql_fetch_overflows:
  assumes "passes_gate c query" "required_present c"
    and "connect_fault srv (connect_args_of c database) = None"
    and "respond srv (set_timeout_stmt c) = Inr o1"
    and "respond srv query = Inr (Tuples cols rs)" "cols \<noteq> []"
    and "\<not> fits_long (get_or (max_rows c) 1000)"
  shows "execute_sql c srv database query =
     (failure (OtherException ''Python int too large to convert to C long''),
      [Connect (connect_args_of c database), OpenCursor, Execute (set_timeout_stmt c),
       Execute query, FetchMany (get_or (max_rows c) 1000)])"
  using assms
  by (auto simp add: execute_sql_def execute_sql_try_def passes_gate_def
      get_connection_present set_timeout_stmt_def truthy_def
      description_def io_defs Let_def)

section \<open>The paths through \<open>list_databases\<close>\<close>

lemma list_databases_try_key_absent:
  assumes "\<not> required_present c"
  shows "\<exists>k. list_databases_try c srv [] = (Inl (OtherException k), [])"
proof -
  from get_connection_absent [OF assms]
  obtain k where "get_connection c srv ''postgres'' [] = (Inl (OtherException k), [])"
    by blast
  then have "list_databases_try c srv [] = (Inl (OtherException k), [])"
    by (simp add: list_databases_try_def bind_io_def)
  then show ?thesis ..
qed

lemma list_databases_try_connect_fails:
  assumes "required_present c"
    and "connect_fault srv (connect_args_of c ''postgres'') = Some e"
  shows "list_databases_try c srv [] = (Inl e, [Connect (connect_args_of c ''postgres'')])"
  using assms
  by (simp add: list_databases_try_def get_connection_present bind_io_def)

lemma list_databases_try_statement_fails:
  assumes "required_present c"
    and "connect_fault srv (connect_args_of c ''postgres'') = None"
    and "respond srv list_databases_query = Inl e"
  shows "list_databases_try c srv [] =
     (Inl e, [Connect (connect_args_of c ''postgres''), OpenCursor,
              Execute list_databases_query])"
  using assms
  by (simp add: list_databases_try_def get_connection_present io_defs)

lemma list_databases_try_rows:
  assumes "required_present c"
    and "connect_fault srv (connect_args_of c ''postgres'') = None"
    and "respond srv list_databases_query = Inr (Tuples cols rs)"
  shows "list_databases_try c srv [] =
     (case database_names rs of
        Inl e \<Rightarrow> Inl e
      | Inr names \<Rightarrow>
          Inr \<lparr>listing_status = ''success'', listing_message = None,
               databases = names, count = Some (int (length names))\<rparr>,
      [Connect (connect_args_of c ''postgres''), OpenCursor, Execute list_databases_query,
       FetchAll, CloseCursor, CloseConn])"
  using assms
  by (simp add: list_databases_try_def get_connection_present io_defs split: sum.splits)

lemma list_databases_try_command:
  assumes "required_present c"
    and "connect_fault srv (connect_args_of c ''postgres'') = None"
    and "respond srv list_databases_query = Inr (Command a)"
  shows "list_databases_try c srv [] =
     (Inl (Psycopg2Error ''no results to fetch''),
      [Connect (connect_args_of c ''postgres''), OpenCursor, Execute list_databases_query,
       FetchAll])"
  using assms
  by (simp add: list_databases_try_def get_connection_present io_defs)

lemma list_databases_try_success:
  assumes "list_databases_try c srv [] = (Inr r, tr)"
  shows "listing_status r = ''success'' \<and> listing_message r = None
       \<and> count r = Some (int (length (databases r)))"
proof (cases "required_present c")
  case False
  from list_databases_try_key_absent [OF this, of srv] assms show ?thesis
    by auto
next
  case present: True
  show ?thesis
  proof (cases "connect_fault srv (connect_args_of c ''postgres'')")
    case (Some e)
    from list_databases_try_connect_fails [OF present this] assms show ?thesis
      by simp
  next
    case None
    show ?thesis
    proof (cases "respond srv list_databases_query")
      case (Inl e)
      from list_databases_try_statement_fails [OF present None this] assms show ?thesis
        by simp
    next
      case (Inr cur)
      show ?thesis
      proof (cases cur)
        case (Tuples cols rs)
        with Inr have "respond srv list_databases_query = Inr (Tuples cols rs)"
          by simp
        from list_databases_try_rows [OF present None this] assms show ?thesis
          by (auto split: sum.splits)
      next
        case (Command a)
        with Inr have "respond srv list_databases_query = Inr (Command a)"
          by simp
        from list_databases_try_command [OF present None this] assms show ?thesis
          by simp
      qed
    qed
  qed
qed

lemma database_names_of_name_rows:
  "database_names (map (\<lambda>n. [(''database_name'', Text n)]) ns) = Inr (map Text ns)"
  by (induction ns) (simp_all add: item_def)

lemma sorted_pg_database_names: "sorted (pg_database_names pg_database)"
  by (simp add: pg_database_names_def)

lemma set_pg_database_names:
  "set (pg_database_names pg_database) = {n. (n, False) \<in> set pg_database}"
  by (auto simp add: pg_database_names_def image_iff)
lemmas sql_defs = sql_tokens_def sql_space_def sql_fold_def word_def column_of_def
  column_name_def parse_order_def parse_where_def parse_from_def parse_select_def

lemma list_databases_query_parsed:
  "parse_select (sql_tokens list_databases_query) =
     Some \<lparr>sel_column = Datname, sel_name = ''database_name'', sel_where = Some False,
           sel_desc = Some False\<rparr>"
  by (simp add: list_databases_query_def ascii_def sql_defs char_of_def bit_Suc_0_iff)

lemma map_fst_insort_key:
  "map fst (insort_key fst x xs) = insort (fst x) (map fst xs)"
  by (induction xs) simp_all

lemma map_fst_sort_key: "map fst (sort_key fst xs) = sort (map fst xs)"
  by (induction xs) (simp_all add: map_fst_insort_key)

lemma pg_eval_list_databases_query:
  "pg_eval pg_database list_databases_query =
     Inr (Tuples [''database_name'']
       (map (\<lambda>n. [(''database_name'', Text n)]) (pg_database_names pg_database)))"
proof -
  have "map (\<lambda>d. [(''database_name'', Text (fst d))])
          (sort_key fst (filter (\<lambda>d. \<not> snd d) pg_database)) =
        map (\<lambda>n. [(''database_name'', Text n)])
          (map fst (sort_key fst (filter (\<lambda>d. \<not> snd d) pg_database)))"
    by simp
  then show ?thesis
    by (simp add: pg_eval_def list_databases_query_parsed pg_rows_def pg_cell_def
        pg_database_names_def map_fst_sort_key del: map_map)
qed


section \<open>What \<open>execute_sql_try\<close> can return and raise\<close>

lemma execute_sql_try_statement_fails:
  assumes "passes_gate c query" "required_present c"
    and "connect_fault srv (connect_args_of c database) = None"
    and "respond srv (set_timeout_stmt c) = Inr o1"
    and "respond srv query = Inl e"
  shows "execute_sql_try c srv database query [] =
     (Inl e,
      [Connect (connect_args_of c database), OpenCursor, Execute (set_timeout_stmt c),
       Execute query])"
  using assms
  by (auto simp add: execute_sql_try_def passes_gate_def
      get_connection_present set_timeout_stmt_def io_defs Let_def)

lemma execute_sql_cases:
  obtains (rejected) "\<not> passes_gate c query"
  | (key_absent) "passes_gate c query" "\<not> required_present c"
  | (connect_fails) e where "passes_gate c query" "required_present c"
      "connect_fault srv (connect_args_of c database) = Some e"
  | (timeout_fails) e where "passes_gate c query" "required_present c"
      "connect_fault srv (connect_args_of c database) = None"
      "respond srv (set_timeout_stmt c) = Inl e"
  | (statement_fails) o1 e where "passes_gate c query" "required_present c"
      "connect_fault srv (connect_args_of c database) = None"
      "respond srv (set_timeout_stmt c) = Inr o1" "respond srv query = Inl e"
  | (rows) o1 cols rs where "passes_gate c query" "required_present c"
      "connect_fault srv (connect_args_of c database) = None"
      "respond srv (set_timeout_stmt c) = Inr o1"
      "respond srv query = Inr (Tuples cols rs)" "cols \<noteq> []"
      "fits_long (get_or (max_rows c) 1000)"
  | (fetch_overflows) o1 cols rs where "passes_gate c query" "required_present c"
      "connect_fault srv (connect_args_of c database) = None"
      "respond srv (set_timeout_stmt c) = Inr o1"
      "respond srv query = Inr (Tuples cols rs)" "cols \<noteq> []"
      "\<not> fits_long (get_or (max_rows c) 1000)"
  | (command) o1 cur where "passes_gate c query" "required_present c"
      "connect_fault srv (connect_args_of c database) = None"
      "respond srv (set_timeout_stmt c) = Inr o1"
      "respond srv query = Inr cur" "\<not> truthy (description cur)"
      "commit_fault srv = None"
  | (commit_fails) o1 cur e where "passes_gate c query" "required_present c"
      "connect_fault srv (connect_args_of c database) = None"
      "respond srv (set_timeout_stmt c) = Inr o1"
      "respond srv query = Inr cur" "\<not> truthy (description cur)"
      "commit_fault srv = Some e"
proof (cases "passes_gate c query")
  case False
  then show ?thesis by (rule rejected)
next
  case gate: True
  show ?thesis
  proof (cases "required_present c")
    case False
    with gate show ?thesis by (rule key_absent)
  next
    case present: True
    show ?thesis
    proof (cases "connect_fault srv (connect_args_of c database)")
      case (Some e)
      with gate present show ?thesis by (rule connect_fails)
    next
      case conn: None
      show ?thesis
      proof (cases "respond srv (set_timeout_stmt c)")
        case (Inl e)
        with gate present conn show ?thesis by (rule timeout_fails)
      next
        case set_ok: (Inr o1)
        show ?thesis
        proof (cases "respond srv query")
          case (Inl e)
          with gate present conn set_ok show ?thesis by (rule statement_fails)
        next
          case ran: (Inr cur)
          show ?thesis
          proof (cases "truthy (description cur)")
            case True
            then obtain cols rs where shape: "cur = Tuples cols rs" "cols \<noteq> []"
              by (cases cur) (auto simp add: truthy_def description_def)
            show ?thesis
            proof (cases "fits_long (get_or (max_rows c) 1000)")
              case True
              with gate present conn set_ok ran shape show ?thesis
                by (auto intro: rows)
            next
              case False
              with gate present conn set_ok ran shape show ?thesis
                by (auto intro: fetch_overflows)
            qed
          next
            case falsy: False
            show ?thesis
            proof (cases "commit_fault srv")
              case None
              with gate present conn set_ok ran falsy show ?thesis by (rule command)
            next
              case (Some e)
              with gate present conn set_ok ran falsy show ?thesis by (rule commit_fails)
            qed
          qed
        qed
      qed
    qed
  qed
qed

lemma failure_shape:
  "status (failure e) = ''error'' \<and> rows (failure e) = [] \<and> row_count (failure e) = 0
   \<and> columns (failure e) = []"
  by (cases e) (simp_all add: failure_def)

lemma execute_sql_error_shape:
  "status (fst (execute_sql c srv database query)) = ''error'' \<Longrightarrow>
   rows (fst (execute_sql c srv database query)) = []
   \<and> row_count (fst (execute_sql c srv database query)) = 0
   \<and> columns (fst (execute_sql c srv database query)) = []"
proof (cases rule: execute_sql_cases [where c = c and query = query and srv = srv and database = database])
  case rejected
  then show ?thesis by (simp add: execute_sql_rejected)
next
  case key_absent
  from execute_sql_key_absent [OF this, of srv database] show ?thesis
    by (auto simp add: failure_shape)
next
  case (connect_fails e)
  then show ?thesis by (simp add: execute_sql_connect_fails failure_shape)
next
  case (timeout_fails e)
  then show ?thesis by (simp add: execute_sql_timeout_fails failure_shape)
next
  case (statement_fails o1 e)
  then show ?thesis by (simp add: execute_sql_statement_fails failure_shape)
next
  case (rows o1 cols rs)
  assume "status (fst (execute_sql c srv database query)) = ''error''"
  with execute_sql_rows [OF rows] show ?thesis by simp
next
  case (fetch_overflows o1 cols rs)
  then show ?thesis by (simp add: execute_sql_fetch_overflows failure_shape)
next
  case (command o1 cur)
  assume "status (fst (execute_sql c srv database query)) = ''error''"
  with execute_sql_command [OF command] show ?thesis by simp
next
  case (commit_fails o1 cur e)
  then show ?thesis by (simp add: execute_sql_commit_fails failure_shape)
qed

lemma execute_sql_status:
  "status (fst (execute_sql c srv database query)) = ''success''
   \<or> status (fst (execute_sql c srv database query)) = ''error''"
proof (cases rule: execute_sql_cases [where c = c and query = query and srv = srv and database = database])
  case rejected
  then show ?thesis by (simp add: execute_sql_rejected)
next
  case key_absent
  from execute_sql_key_absent [OF this, of srv database] show ?thesis
    by (auto simp add: failure_shape)
next
  case (connect_fails e)
  then show ?thesis by (simp add: execute_sql_connect_fails failure_shape)
next
  case (timeout_fails e)
  then show ?thesis by (simp add: execute_sql_timeout_fails failure_shape)
next
  case (statement_fails o1 e)
  then show ?thesis by (simp add: execute_sql_statement_fails failure_shape)
next
  case (rows o1 cols rs)
  from execute_sql_rows [OF rows] show ?thesis by simp
next
  case (fetch_overflows o1 cols rs)
  then show ?thesis by (simp add: execute_sql_fetch_overflows failure_shape)
next
  case (command o1 cur)
  from execute_sql_command [OF command] show ?thesis by simp
next
  case (commit_fails o1 cur e)
  then show ?thesis by (simp add: execute_sql_commit_fails failure_shape)
qed

section \<open>Evaluating the examples\<close>

lemmas text_defs = ascii_def isspace_def lstrip_def rstrip_def strip_def upper_char_def upper_def
  startswith_def safe_starts_def is_read_only_query_def

lemma example_config_present: "required_present example_config"
  by (simp add: required_present_def example_config_def)

lemma read_only_config_present: "required_present read_only_config"
  by (simp add: required_present_def read_only_config_def example_config_def)

lemma example_config_gate: "passes_gate example_config query"
  by (simp add: passes_gate_def example_config_def get_or_def)

lemma example_timeout_stmt: "set_timeout_stmt example_config = ascii ''SET statement_timeout = 30000''"
  by (simp add: set_timeout_stmt_def example_config_def get_or_def str_int_def str_nat.simps
      digit_def)

lemma read_only_timeout_stmt:
  "set_timeout_stmt read_only_config = ascii ''SET statement_timeout = 30000''"
  by (simp add: set_timeout_stmt_def read_only_config_def example_config_def get_or_def
      str_int_def str_nat.simps digit_def)

lemma example_connect_ok: "connect_fault example_server args = None"
  by (simp add: example_server_def)

lemma example_commit_ok: "commit_fault example_server = None"
  by (simp add: example_server_def)

lemma example_respond_timeout:
  "respond example_server (ascii ''SET statement_timeout = 30000'') = Inr (Command None)"
  by (simp add: example_server_def example_respond_def list_databases_query_def ascii_def)


lemma example_respond_insert:
  "respond example_server (ascii ''INSERT INTO t(x) VALUES (1)'') = Inr (Command (Some 1))"
  by (simp add: example_server_def example_respond_def ascii_def)

lemma example_respond_create:
  "respond example_server (ascii ''CREATE TABLE u (x int)'') = Inr (Command None)"
  by (simp add: example_server_def example_respond_def ascii_def)

lemma example_respond_selec:
  "respond example_server (ascii ''SELEC 1'') = Inl (Psycopg2Error ''syntax error at or near SELEC'')"
  by (simp add: example_server_def example_respond_def ascii_def)

lemma example_respond_selectx:
  "respond example_server (ascii ''SELECTX'') = Inr (Command None)"
  by (simp add: example_server_def example_respond_def list_databases_query_def ascii_def)

lemma example_respond_catalog:
  "respond example_server list_databases_query = pg_eval example_catalog list_databases_query"
  by (simp add: example_server_def example_respond_def list_databases_query_def ascii_def)

lemma delete_not_read_only:
  "\<not> startswith (upper (strip (ascii ''DELETE FROM orders''))) safe_starts"
  by (simp add: text_defs)

lemma selectx_read_only: "is_read_only_query (ascii ''SELECTX'')"
  by (simp add: text_defs)

lemma showing_read_only: "is_read_only_query (ascii ''  showing off'')"
  by (simp add: text_defs)










lemma failing_connect_ok: "connect_fault failing_server args = None"
  by (simp add: failing_server_def)

lemma failing_respond: "respond failing_server stmt = Inl (Psycopg2Error ''permission denied'')"
  by (simp add: failing_server_def)

lemma example_catalog_names:
  "pg_database_names example_catalog = [''hr'', ''postgres'', ''sales'']"
  by code_simp








lemma deferred_connect_ok: "connect_fault deferred_server args = None"
  by (simp add: deferred_server_def)

lemma deferred_commit_fails:
  "commit_fault deferred_server = Some (Psycopg2Error ''violates foreign key constraint'')"
  by (simp add: deferred_server_def)

lemma deferred_respond: "respond deferred_server stmt = respond example_server stmt"
  by (simp add: deferred_server_def example_server_def)

lemma example_respond_do:
  "respond example_server (ascii ''DO $$BEGIN INSERT INTO t(x) VALUES (1); END$$'') =
     Inr (Command None)"
  by (simp add: example_server_def example_respond_def ascii_def)

text \<open>
  The classifier on some texts: each of the five key words in any case and after
  leading white space, which includes the no-break space (160); the long s (383), whose
  upper case is \<open>S\<close>; and texts that start with none of the key words.
\<close>

lemma is_read_only_query_examples:
  "is_read_only_query (ascii ''select 1'')"
  "is_read_only_query (ascii ''Show search_path'')"
  "is_read_only_query (ascii ''  describe t'')"
  "is_read_only_query (ascii ''EXPLAIN DELETE FROM t'')"
  "is_read_only_query (ascii ''with d as (delete from t returning 1) select 1'')"
  "is_read_only_query (160 # ascii ''SELECT 1'')"
  "is_read_only_query (383 # ascii ''elect 1'')"
  "\<not> is_read_only_query (ascii ''DELETE FROM orders'')"
  "\<not> is_read_only_query (ascii ''; select 1'')"
  "\<not> is_read_only_query (8203 # ascii ''SELECT 1'')"
  by (simp_all add: text_defs uppercase_special_def uppercase_runs_def in_run_def)

section \<open>The read-only gate\<close>

text \<open>
  C2. With \<open>read_only\<close> enabled, a query whose stripped, upper-cased text starts with none
  of SELECT, SHOW, DESCRIBE, EXPLAIN, WITH gets the read-only error response with empty
  \<open>rows\<close> and \<open>columns\<close> and \<open>row_count\<close> 0, and the driver is never called: the
  trace is empty, so the number of acquisitions is zero.
\<close>

theorem read_only_rejects_without_connecting:
  assumes "get_or (read_only c) False"
    and "\<not> startswith (upper (strip query)) safe_starts"
  shows "execute_sql c srv database query =
           (\<lparr>status = ''error'',
             message = ''Server is in read-only mode. Only SELECT queries are allowed.'',
             rows = [], row_count = 0, columns = []\<rparr>, [])
         \<and> acquisitions (snd (execute_sql c srv database query)) = 0"
proof -
  from assms have "\<not> passes_gate c query"
    by (simp add: passes_gate_def is_read_only_query_def)
  then show ?thesis
    by (simp add: execute_sql_rejected acquisitions_def)
qed

theorem read_only_rejects_without_connecting_witness:
  "execute_sql read_only_config example_server ''sales'' (ascii ''DELETE FROM orders'') =
     (\<lparr>status = ''error'',
       message = ''Server is in read-only mode. Only SELECT queries are allowed.'',
       rows = [], row_count = 0, columns = []\<rparr>, [])
   \<and> acquisitions
        (snd (execute_sql read_only_config example_server ''sales''
           (ascii ''DELETE FROM orders''))) = 0"
proof -
  have "get_or (read_only read_only_config) False"
    by (simp add: read_only_config_def get_or_def)
  from read_only_rejects_without_connecting [OF this delete_not_read_only]
  show ?thesis .
qed

text \<open>
  C9. The classifier compares raw prefixes, not words: \<open>SELECTX\<close> and \<open>showing off\<close>
  are classified as read-only, and in read-only mode \<open>execute_sql\<close> goes past the gate
  with \<open>SELECTX\<close>, opens a connection and sends the text to the server.
\<close>

theorem prefix_match_is_not_word_match:
  "is_read_only_query (ascii ''SELECTX'') \<and> is_read_only_query (ascii ''  showing off'')
   \<and> get_or (read_only read_only_config) False
   \<and> snd (execute_sql read_only_config example_server ''db'' (ascii ''SELECTX'')) =
       [Connect (connect_args_of read_only_config ''db''), OpenCursor,
        Execute (ascii ''SET statement_timeout = 30000''), Execute (ascii ''SELECTX''),
        Commit, CloseCursor, CloseConn]
   \<and> acquisitions
        (snd (execute_sql read_only_config example_server ''db'' (ascii ''SELECTX''))) = 1"
proof -
  have gate: "passes_gate read_only_config (ascii ''SELECTX'')"
    by (simp add: passes_gate_def selectx_read_only)
  have "\<not> truthy (description (Command None))"
    by (simp add: truthy_def description_def)
  with gate
  have run: "snd (execute_sql read_only_config example_server ''db'' (ascii ''SELECTX'')) =
       [Connect (connect_args_of read_only_config ''db''), OpenCursor,
        Execute (ascii ''SET statement_timeout = 30000''), Execute (ascii ''SELECTX''),
        Commit, CloseCursor, CloseConn]"
    using execute_sql_command [of read_only_config "ascii ''SELECTX''" example_server "''db''"
        "Command None" "Command None"]
    by (simp add: read_only_config_present example_connect_ok example_commit_ok
        read_only_timeout_stmt example_respond_timeout example_respond_selectx)
  have "get_or (read_only read_only_config) False"
    by (simp add: read_only_config_def get_or_def)
  then show ?thesis
    by (simp add: run selectx_read_only showing_read_only acquisitions_def)
qed

section \<open>Statements without a result set\<close>

text \<open>
  C4, as the code has it. When the call passes the gate, the connection and the timeout
  statement succeed and the caller's statement leaves no result set, \<open>execute_sql\<close>
  issues an explicit commit right after the statement. When that commit succeeds, the
  response is a success with empty \<open>rows\<close> and \<open>columns\<close>, and \<open>row_count\<close> is the
  cursor's row count, which is the affected-row count \<open>k\<close> when the server reports one.
  When the commit raises, the call returns the error response for that exception and
  nothing further is sent.
\<close>

theorem mutating_statement_commits_and_reports_count:
  assumes "passes_gate c query" "required_present c"
    and "connect_fault srv (connect_args_of c database) = None"
    and "respond srv (set_timeout_stmt c) = Inr o1"
    and "respond srv query = Inr (Command a)"
  shows "(commit_fault srv = None \<longrightarrow>
            status (fst (execute_sql c srv database query)) = ''success''
          \<and> rows (fst (execute_sql c srv database query)) = []
          \<and> columns (fst (execute_sql c srv database query)) = []
          \<and> row_count (fst (execute_sql c srv database query)) = rowcount (Command a)
          \<and> snd (execute_sql c srv database query) =
              [Connect (connect_args_of c database), OpenCursor, Execute (set_timeout_stmt c),
               Execute query, Commit, CloseCursor, CloseConn])
       \<and> rowcount (Command (Some k)) = k
       \<and> (commit_fault srv = Some e \<longrightarrow>
            execute_sql c srv database query =
              (failure e,
               [Connect (connect_args_of c database), OpenCursor,
                Execute (set_timeout_stmt c), Execute query, Commit]))"
proof -
  have falsy: "\<not> truthy (description (Command a))"
    by (simp add: truthy_def description_def)
  show ?thesis
    using execute_sql_command [OF assms falsy] execute_sql_commit_fails [OF assms falsy]
    by (simp add: rowcount_def)
qed

theorem mutating_statement_commits_and_reports_count_witness:
  "status (fst (execute_sql example_config example_server ''db''
       (ascii ''INSERT INTO t(x) VALUES (1)''))) = ''success''
   \<and> rows (fst (execute_sql example_config example_server ''db''
       (ascii ''INSERT INTO t(x) VALUES (1)''))) = []
   \<and> columns (fst (execute_sql example_config example_server ''db''
       (ascii ''INSERT INTO t(x) VALUES (1)''))) = []
   \<and> row_count (fst (execute_sql example_config example_server ''db''
       (ascii ''INSERT INTO t(x) VALUES (1)''))) = 1
   \<and> snd (execute_sql example_config example_server ''db''
       (ascii ''INSERT INTO t(x) VALUES (1)'')) =
       [Connect (connect_args_of example_config ''db''), OpenCursor,
        Execute (ascii ''SET statement_timeout = 30000''),
        Execute (ascii ''INSERT INTO t(x) VALUES (1)''), Commit, CloseCursor, CloseConn]
   \<and> execute_sql example_config deferred_server ''db''
       (ascii ''INSERT INTO t(x) VALUES (1)'') =
       (failure (Psycopg2Error ''violates foreign key constraint''),
        [Connect (connect_args_of example_config ''db''), OpenCursor,
         Execute (ascii ''SET statement_timeout = 30000''),
         Execute (ascii ''INSERT INTO t(x) VALUES (1)''), Commit])"
proof -
  from mutating_statement_commits_and_reports_count
    [where c = example_config and query = "ascii ''INSERT INTO t(x) VALUES (1)''"
      and srv = example_server and database = "''db''" and ?o1.0 = "Command None"
      and a = "Some 1"]
  have "status (fst (execute_sql example_config example_server ''db''
       (ascii ''INSERT INTO t(x) VALUES (1)''))) = ''success''
   \<and> rows (fst (execute_sql example_config example_server ''db''
       (ascii ''INSERT INTO t(x) VALUES (1)''))) = []
   \<and> columns (fst (execute_sql example_config example_server ''db''
       (ascii ''INSERT INTO t(x) VALUES (1)''))) = []
   \<and> row_count (fst (execute_sql example_config example_server ''db''
       (ascii ''INSERT INTO t(x) VALUES (1)''))) = 1
   \<and> snd (execute_sql example_config example_server ''db''
       (ascii ''INSERT INTO t(x) VALUES (1)'')) =
       [Connect (connect_args_of example_config ''db''), OpenCursor,
        Execute (ascii ''SET statement_timeout = 30000''),
        Execute (ascii ''INSERT INTO t(x) VALUES (1)''), Commit, CloseCursor, CloseConn]"
    by (simp add: example_config_gate example_config_present example_connect_ok
        example_commit_ok example_timeout_stmt example_respond_timeout
        example_respond_insert rowcount_def)
  moreover
  from mutating_statement_commits_and_reports_count
    [where c = example_config and query = "ascii ''INSERT INTO t(x) VALUES (1)''"
      and srv = deferred_server and database = "''db''" and ?o1.0 = "Command None"
      and a = "Some 1" and e = "Psycopg2Error ''violates foreign key constraint''"]
  have "execute_sql example_config deferred_server ''db''
       (ascii ''INSERT INTO t(x) VALUES (1)'') =
       (failure (Psycopg2Error ''violates foreign key constraint''),
        [Connect (connect_args_of example_config ''db''), OpenCursor,
         Execute (ascii ''SET statement_timeout = 30000''),
         Execute (ascii ''INSERT INTO t(x) VALUES (1)''), Commit])"
    by (simp add: example_config_gate example_config_present deferred_connect_ok
        deferred_commit_fails deferred_respond example_timeout_stmt example_respond_timeout
        example_respond_insert)
  ultimately show ?thesis
    by simp
qed

text \<open>
  C4 as stated fails when the commit raises: the server reports one affected
  row for the \<open>INSERT\<close>, the deferred constraint makes the commit fail, and the call
  returns status \<open>error\<close> with \<open>row_count\<close> 0.
\<close>

theorem failed_commit_turns_insert_into_error:
  "respond deferred_server (ascii ''INSERT INTO t(x) VALUES (1)'') = Inr (Command (Some 1))
   \<and> status (fst (execute_sql example_config deferred_server ''db''
        (ascii ''INSERT INTO t(x) VALUES (1)''))) \<noteq> ''success''
   \<and> row_count (fst (execute_sql example_config deferred_server ''db''
        (ascii ''INSERT INTO t(x) VALUES (1)''))) \<noteq> 1
   \<and> fst (execute_sql example_config deferred_server ''db''
        (ascii ''INSERT INTO t(x) VALUES (1)'')) =
       \<lparr>status = ''error'', message = ''Database error: violates foreign key constraint'',
        rows = [], row_count = 0, columns = []\<rparr>"
proof -
  have "\<not> truthy (description (Command (Some 1)))"
    by (simp add: truthy_def description_def)
  from execute_sql_commit_fails
    [of example_config "ascii ''INSERT INTO t(x) VALUES (1)''" deferred_server "''db''"
      "Command None" "Command (Some 1)" "Psycopg2Error ''violates foreign key constraint''"]
    this
  show ?thesis
    by (simp add: example_config_gate example_config_present deferred_connect_ok
        deferred_commit_fails deferred_respond example_timeout_stmt example_respond_timeout
        example_respond_insert failure_def)
qed

text \<open>
  C10, as the code has it. When the server reports no affected-row count for such a
  statement (a \<open>CREATE TABLE\<close> or a \<open>DO\<close> block, say) and the commit succeeds, the
  response is a success with empty \<open>rows\<close> and \<open>columns\<close>, and \<open>row_count\<close> is the
  driver's \<open>-1\<close>, not \<open>0\<close>. When the commit raises, the call returns the error response
  for that exception, whose \<open>row_count\<close> is \<open>0\<close>.
\<close>

theorem statement_without_count_reports_minus_one:
  assumes "passes_gate c query" "required_present c"
    and "connect_fault srv (connect_args_of c database) = None"
    and "respond srv (set_timeout_stmt c) = Inr o1"
    and "respond srv query = Inr (Command None)"
  shows "(commit_fault srv = None \<longrightarrow>
            status (fst (execute_sql c srv database query)) = ''success''
          \<and> row_count (fst (execute_sql c srv database query)) = - 1
          \<and> row_count (fst (execute_sql c srv database query)) \<noteq> 0
          \<and> rows (fst (execute_sql c srv database query)) = []
          \<and> columns (fst (execute_sql c srv database query)) = [])
       \<and> (commit_fault srv = Some e \<longrightarrow>
            fst (execute_sql c srv database query) = failure e
          \<and> row_count (fst (execute_sql c srv database query)) = 0)"
proof -
  have falsy: "\<not> truthy (description (Command None))"
    by (simp add: truthy_def description_def)
  show ?thesis
    using execute_sql_command [OF assms falsy] execute_sql_commit_fails [OF assms falsy]
    by (simp add: rowcount_def failure_shape)
qed

theorem statement_without_count_reports_minus_one_witness:
  "status (fst (execute_sql example_config example_server ''db''
       (ascii ''CREATE TABLE u (x int)''))) = ''success''
   \<and> row_count (fst (execute_sql example_config example_server ''db''
       (ascii ''CREATE TABLE u (x int)''))) = - 1
   \<and> rows (fst (execute_sql example_config example_server ''db''
       (ascii ''CREATE TABLE u (x int)''))) = []
   \<and> columns (fst (execute_sql example_config example_server ''db''
       (ascii ''CREATE TABLE u (x int)''))) = []
   \<and> fst (execute_sql example_config deferred_server ''db''
       (ascii ''DO $$BEGIN INSERT INTO t(x) VALUES (1); END$$'')) =
       failure (Psycopg2Error ''violates foreign key constraint'')"
proof -
  from statement_without_count_reports_minus_one
    [where c = example_config and query = "ascii ''CREATE TABLE u (x int)''"
      and srv = example_server and database = "''db''" and ?o1.0 = "Command None"]
  have "status (fst (execute_sql example_config example_server ''db''
       (ascii ''CREATE TABLE u (x int)''))) = ''success''
   \<and> row_count (fst (execute_sql example_config example_server ''db''
       (ascii ''CREATE TABLE u (x int)''))) = - 1
   \<and> rows (fst (execute_sql example_config example_server ''db''
       (ascii ''CREATE TABLE u (x int)''))) = []
   \<and> columns (fst (execute_sql example_config example_server ''db''
       (ascii ''CREATE TABLE u (x int)''))) = []"
    by (simp add: example_config_gate example_config_present example_connect_ok
        example_commit_ok example_timeout_stmt example_respond_timeout
        example_respond_create)
  moreover
  from statement_without_count_reports_minus_one
    [where c = example_config
      and query = "ascii ''DO $$BEGIN INSERT INTO t(x) VALUES (1); END$$''"
      and srv = deferred_server and database = "''db''" and ?o1.0 = "Command None"
      and e = "Psycopg2Error ''violates foreign key constraint''"]
  have "fst (execute_sql example_config deferred_server ''db''
       (ascii ''DO $$BEGIN INSERT INTO t(x) VALUES (1); END$$'')) =
       failure (Psycopg2Error ''violates foreign key constraint'')"
    by (simp add: example_config_gate example_config_present deferred_connect_ok
        deferred_commit_fails deferred_respond example_timeout_stmt example_respond_timeout
        example_respond_do)
  ultimately show ?thesis
    by simp
qed

text \<open>
  C10 as stated fails when the commit raises: the \<open>DO\<close> block leaves no result set
  and no count, the deferred constraint makes the commit fail, and the call returns
  status \<open>error\<close> with \<open>row_count\<close> 0, not \<open>-1\<close>.
\<close>

theorem failed_commit_reports_zero_not_minus_one:
  "respond deferred_server (ascii ''DO $$BEGIN INSERT INTO t(x) VALUES (1); END$$'')
     = Inr (Command None)
   \<and> status (fst (execute_sql example_config deferred_server ''db''
        (ascii ''DO $$BEGIN INSERT INTO t(x) VALUES (1); END$$''))) \<noteq> ''success''
   \<and> row_count (fst (execute_sql example_config deferred_server ''db''
        (ascii ''DO $$BEGIN INSERT INTO t(x) VALUES (1); END$$''))) \<noteq> - 1
   \<and> fst (execute_sql example_config deferred_server ''db''
        (ascii ''DO $$BEGIN INSERT INTO t(x) VALUES (1); END$$'')) =
       \<lparr>status = ''error'', message = ''Database error: violates foreign key constraint'',
        rows = [], row_count = 0, columns = []\<rparr>"
proof -
  have "\<not> truthy (description (Command None))"
    by (simp add: truthy_def description_def)
  from execute_sql_commit_fails
    [of example_config "ascii ''DO $$BEGIN INSERT INTO t(x) VALUES (1); END$$''"
      deferred_server "''db''" "Command None" "Command None"
      "Psycopg2Error ''violates foreign key constraint''"]
    this
  show ?thesis
    by (simp add: example_config_gate example_config_present deferred_connect_ok
        deferred_commit_fails deferred_respond example_timeout_stmt example_respond_timeout
        example_respond_do failure_def)
qed

section \<open>Releasing the connection\<close>

text \<open>
  C1. The connection is closed once on the paths that return normally, but the two
  \<open>except\<close> handlers do not close it. When the server rejects the caller's statement,
  \<open>execute_sql\<close> returns its error response after one \<open>Connect\<close> and no \<open>CloseConn\<close>;
  \<open>list_databases\<close> does the same when its query is rejected.
\<close>

theorem failed_statement_leaves_connection_open:
  "snd (execute_sql example_config example_server ''db'' (ascii ''SELEC 1'')) =
     [Connect (connect_args_of example_config ''db''), OpenCursor,
      Execute (ascii ''SET statement_timeout = 30000''), Execute (ascii ''SELEC 1'')]
   \<and> status (fst (execute_sql example_config example_server ''db'' (ascii ''SELEC 1'')))
       = ''error''
   \<and> acquisitions (snd (execute_sql example_config example_server ''db'' (ascii ''SELEC 1'')))
       = 1
   \<and> releases (snd (execute_sql example_config example_server ''db'' (ascii ''SELEC 1''))) = 0
   \<and> snd (list_databases example_config failing_server) =
       [Connect (connect_args_of example_config ''postgres''), OpenCursor,
        Execute list_databases_query]
   \<and> acquisitions (snd (list_databases example_config failing_server)) = 1
   \<and> releases (snd (list_databases example_config failing_server)) = 0"
proof -
  have "execute_sql example_config example_server ''db'' (ascii ''SELEC 1'') =
      (failure (Psycopg2Error ''syntax error at or near SELEC''),
       [Connect (connect_args_of example_config ''db''), OpenCursor,
        Execute (ascii ''SET statement_timeout = 30000''), Execute (ascii ''SELEC 1'')])"
    using execute_sql_statement_fails [of example_config "ascii ''SELEC 1''" example_server "''db''"
        "Command None" "Psycopg2Error ''syntax error at or near SELEC''"]
    by (simp add: example_config_gate example_config_present example_connect_ok
        example_timeout_stmt example_respond_timeout example_respond_selec)
  moreover have "list_databases example_config failing_server =
      (\<lparr>listing_status = ''error'', listing_message = Some ''permission denied'',
        databases = [], count = None\<rparr>,
       [Connect (connect_args_of example_config ''postgres''), OpenCursor,
        Execute list_databases_query])"
    using list_databases_try_statement_fails [of example_config failing_server
        "Psycopg2Error ''permission denied''"]
    by (simp add: list_databases_def example_config_present failing_connect_ok failing_respond
        str_exn_def)
  ultimately show ?thesis
    by (simp add: acquisitions_def releases_def failure_shape)
qed

section \<open>Errors stay inside the operations\<close>

text \<open>
  C5. Whatever exception the body of \<open>execute_sql\<close> raises, the call returns the
  structured error response built from it; every response has status \<open>success\<close> or
  \<open>error\<close>, and every error response has empty \<open>rows\<close> and \<open>columns\<close> and \<open>row_count\<close> 0.
  Whatever exception the body of \<open>list_databases\<close> raises, the call returns the error
  listing with the exception's text and no databases.
\<close>

theorem errors_become_responses:
  "(execute_sql_try c srv database query [] = (Inl e, tr) \<longrightarrow>
      execute_sql c srv database query = (failure e, tr))
   \<and> status (failure e) = ''error'' \<and> rows (failure e) = []
   \<and> row_count (failure e) = 0 \<and> columns (failure e) = []
   \<and> (status (fst (execute_sql c srv database query)) = ''success''
        \<or> status (fst (execute_sql c srv database query)) = ''error'')
   \<and> (status (fst (execute_sql c srv database query)) = ''error'' \<longrightarrow>
        rows (fst (execute_sql c srv database query)) = []
        \<and> row_count (fst (execute_sql c srv database query)) = 0
        \<and> columns (fst (execute_sql c srv database query)) = [])
   \<and> (list_databases_try c srv [] = (Inl e', tr') \<longrightarrow>
        list_databases c srv =
          (\<lparr>listing_status = ''error'', listing_message = Some (str_exn e'),
            databases = [], count = None\<rparr>, tr'))
   \<and> (listing_status (fst (list_databases c srv)) = ''success''
        \<or> listing_status (fst (list_databases c srv)) = ''error'')"
proof -
  have "listing_status (fst (list_databases c srv)) = ''success''
        \<or> listing_status (fst (list_databases c srv)) = ''error''"
  proof (cases "list_databases_try c srv []")
    case (Pair res t)
    then show ?thesis
      using list_databases_try_success [of c srv _ t]
      by (cases res) (simp_all add: list_databases_def)
  qed
  then show ?thesis
    using execute_sql_error_shape [of c srv database query]
      execute_sql_status [of c srv database query]
    by (simp add: failure_shape execute_sql_def list_databases_def)
qed

theorem errors_become_responses_witness:
  "execute_sql example_config example_server ''db'' (ascii ''SELEC 1'') =
     (\<lparr>status = ''error'', message = ''Database error: syntax error at or near SELEC'',
       rows = [], row_count = 0, columns = []\<rparr>,
      [Connect (connect_args_of example_config ''db''), OpenCursor,
       Execute (ascii ''SET statement_timeout = 30000''), Execute (ascii ''SELEC 1'')])
   \<and> list_databases example_config failing_server =
     (\<lparr>listing_status = ''error'', listing_message = Some ''permission denied'',
       databases = [], count = None\<rparr>,
      [Connect (connect_args_of example_config ''postgres''), OpenCursor,
       Execute list_databases_query])"
proof -
  have body: "execute_sql_try example_config example_server ''db'' (ascii ''SELEC 1'') [] =
      (Inl (Psycopg2Error ''syntax error at or near SELEC''),
       [Connect (connect_args_of example_config ''db''), OpenCursor,
        Execute (ascii ''SET statement_timeout = 30000''), Execute (ascii ''SELEC 1'')])"
    using execute_sql_try_statement_fails [of example_config "ascii ''SELEC 1''" example_server
        "''db''" "Command None" "Psycopg2Error ''syntax error at or near SELEC''"]
    by (simp add: example_config_gate example_config_present example_connect_ok
        example_timeout_stmt example_respond_timeout example_respond_selec)
  have listing: "list_databases_try example_config failing_server [] =
      (Inl (Psycopg2Error ''permission denied''),
       [Connect (connect_args_of example_config ''postgres''), OpenCursor,
        Execute list_databases_query])"
    using list_databases_try_statement_fails [of example_config failing_server
        "Psycopg2Error ''permission denied''"]
    by (simp add: example_config_present failing_connect_ok failing_respond)
  from body errors_become_responses [where c = example_config and srv = example_server
      and database = "''db''" and query = "ascii ''SELEC 1''"
      and e = "Psycopg2Error ''syntax error at or near SELEC''"
      and tr = "[Connect (connect_args_of example_config ''db''), OpenCursor,
        Execute (ascii ''SET statement_timeout = 30000''), Execute (ascii ''SELEC 1'')]"]
  have "execute_sql example_config example_server ''db'' (ascii ''SELEC 1'') =
      (failure (Psycopg2Error ''syntax error at or near SELEC''),
       [Connect (connect_args_of example_config ''db''), OpenCursor,
        Execute (ascii ''SET statement_timeout = 30000''), Execute (ascii ''SELEC 1'')])"
    by blast
  moreover
  from listing errors_become_responses [where c = example_config and srv = failing_server
      and e' = "Psycopg2Error ''permission denied''"
      and tr' = "[Connect (connect_args_of example_config ''postgres''), OpenCursor,
        Execute list_databases_query]"]
  have "list_databases example_config failing_server =
      (\<lparr>listing_status = ''error'',
        listing_message = Some (str_exn (Psycopg2Error ''permission denied'')),
        databases = [], count = None\<rparr>,
       [Connect (connect_args_of example_config ''postgres''), OpenCursor,
        Execute list_databases_query])"
    by blast
  ultimately show ?thesis
    by (simp add: failure_def str_exn_def)
qed

section \<open>Start-up\<close>

text \<open>
  C6, as the code has it. \<open>load_config\<close> fails, and the process ends before serving, when
  \<open>config.json\<close> is missing or is not JSON. A JSON object is accepted as it is, whatever
  keys it has: no key is looked up at start-up.
\<close>

theorem startup_fails_only_without_a_json_document:
  "main Missing = Crashed FileNotFoundError
   \<and> main (Invalid m) = Crashed (JSONDecodeError m)
   \<and> main (Document c) = Serving c"
  by (simp add: main_def load_config_def)

text \<open>
  C6 as stated fails: the empty JSON object has none of \<open>host\<close>, \<open>port\<close>,
  \<open>user\<close>, \<open>password\<close>, and the process serves with it.
\<close>

theorem startup_accepts_config_without_required_fields:
  "\<not> required_present empty_config \<and> main (Document empty_config) = Serving empty_config"
  by (simp add: required_present_def empty_config_def main_def load_config_def)

section \<open>Row-returning statements\<close>



text \<open>
  A result set without columns has an empty \<open>description\<close>, which Python takes as
  false: \<open>execute_sql\<close> then treats the statement as a command, returns no rows and
  reports the number of rows of the result set as affected.
\<close>

lemma zero_column_result_is_reported_as_command:
  assumes "passes_gate c query" "required_present c"
    and "connect_fault srv (connect_args_of c database) = None"
    and "respond srv (set_timeout_stmt c) = Inr o1"
    and "respond srv query = Inr (Tuples [] rs)"
    and "commit_fault srv = None"
  shows "status (fst (execute_sql c srv database query)) = ''success''
       \<and> rows (fst (execute_sql c srv database query)) = []
       \<and> row_count (fst (execute_sql c srv database query)) = int (length rs)"
proof -
  have "\<not> truthy (description (Tuples [] rs))"
    by (simp add: truthy_def description_def)
  from execute_sql_command [OF assms(1-5) this assms(6)]
  show ?thesis
    by (simp add: rowcount_def)
qed




section \<open>Listing the databases\<close>

text \<open>
  C7. When the connection is opened and the server evaluates the statement that
  \<open>list_databases\<close> sends, as \<open>pg_eval\<close> does on the catalogue \<open>pg_database\<close>, the
  listing is a success that carries exactly the names of the databases that are not
  templates, in ascending order, and \<open>count\<close> is their number. Every listing that the
  body returns is a success whose \<open>count\<close> is the number of its \<open>databases\<close>. When the
  body raises, the listing has status \<open>error\<close>, the exception's text as message, and
  no databases.
\<close>

theorem list_databases_returns_sorted_non_templates:
  "(required_present c \<and> connect_fault srv (connect_args_of c ''postgres'') = None
      \<and> respond srv list_databases_query = pg_eval pg_database list_databases_query \<longrightarrow>
      list_databases c srv =
        (\<lparr>listing_status = ''success'', listing_message = None,
          databases = map Text (pg_database_names pg_database),
          count = Some (int (length (pg_database_names pg_database)))\<rparr>,
         [Connect (connect_args_of c ''postgres''), OpenCursor, Execute list_databases_query,
          FetchAll, CloseCursor, CloseConn])
      \<and> sorted (pg_database_names pg_database)
      \<and> set (pg_database_names pg_database) = {n. (n, False) \<in> set pg_database})
   \<and> (list_databases_try c srv [] = (Inr r, tr) \<longrightarrow>
        list_databases c srv = (r, tr) \<and> listing_status r = ''success''
        \<and> count r = Some (int (length (databases r))))
   \<and> (list_databases_try c srv [] = (Inl e, tr) \<longrightarrow>
        list_databases c srv =
          (\<lparr>listing_status = ''error'', listing_message = Some (str_exn e),
            databases = [], count = None\<rparr>, tr))"
proof (intro conjI impI)
  assume a: "required_present c \<and> connect_fault srv (connect_args_of c ''postgres'') = None
      \<and> respond srv list_databases_query = pg_eval pg_database list_databases_query"
  then have "respond srv list_databases_query =
      Inr (Tuples [''database_name'']
        (map (\<lambda>n. [(''database_name'', Text n)]) (pg_database_names pg_database)))"
    by (simp add: pg_eval_list_databases_query)
  with a list_databases_try_rows [of c srv "[''database_name'']"
      "map (\<lambda>n. [(''database_name'', Text n)]) (pg_database_names pg_database)"]
  show "list_databases c srv =
        (\<lparr>listing_status = ''success'', listing_message = None,
          databases = map Text (pg_database_names pg_database),
          count = Some (int (length (pg_database_names pg_database)))\<rparr>,
         [Connect (connect_args_of c ''postgres''), OpenCursor, Execute list_databases_query,
          FetchAll, CloseCursor, CloseConn])"
    by (simp add: list_databases_def database_names_of_name_rows)
next
  show "sorted (pg_database_names pg_database)"
    by (rule sorted_pg_database_names)
next
  show "set (pg_database_names pg_database) = {n. (n, False) \<in> set pg_database}"
    by (rule set_pg_database_names)
next
  assume "list_databases_try c srv [] = (Inr r, tr)"
  then show "list_databases c srv = (r, tr)"
    by (simp add: list_databases_def)
next
  assume "list_databases_try c srv [] = (Inr r, tr)"
  from list_databases_try_success [OF this] show "listing_status r = ''success''"
    by simp
next
  assume "list_databases_try c srv [] = (Inr r, tr)"
  from list_databases_try_success [OF this]
  show "count r = Some (int (length (databases r)))"
    by simp
next
  assume "list_databases_try c srv [] = (Inl e, tr)"
  then show "list_databases c srv =
          (\<lparr>listing_status = ''error'', listing_message = Some (str_exn e),
            databases = [], count = None\<rparr>, tr)"
    by (simp add: list_databases_def)
qed

theorem list_databases_returns_sorted_non_templates_witness:
  "fst (list_databases example_config example_server) =
     \<lparr>listing_status = ''success'', listing_message = None,
      databases = [Text ''hr'', Text ''postgres'', Text ''sales''], count = Some 3\<rparr>
   \<and> list_databases example_config failing_server =
     (\<lparr>listing_status = ''error'', listing_message = Some ''permission denied'',
       databases = [], count = None\<rparr>,
      [Connect (connect_args_of example_config ''postgres''), OpenCursor,
       Execute list_databases_query])"
proof -
  from list_databases_returns_sorted_non_templates
    [where c = example_config and srv = example_server and pg_database = example_catalog]
  have "fst (list_databases example_config example_server) =
     \<lparr>listing_status = ''success'', listing_message = None,
      databases = [Text ''hr'', Text ''postgres'', Text ''sales''], count = Some 3\<rparr>"
    by (simp add: example_config_present example_connect_ok example_respond_catalog
        example_catalog_names)
  moreover
  have "list_databases_try example_config failing_server [] =
      (Inl (Psycopg2Error ''permission denied''),
       [Connect (connect_args_of example_config ''postgres''), OpenCursor,
        Execute list_databases_query])"
    using list_databases_try_statement_fails [of example_config failing_server
        "Psycopg2Error ''permission denied''"]
    by (simp add: example_config_present failing_connect_ok failing_respond)
  with list_databases_returns_sorted_non_templates
    [where c = example_config and srv = failing_server
      and e = "Psycopg2Error ''permission denied''"
      and tr = "[Connect (connect_args_of example_config ''postgres''), OpenCursor,
        Execute list_databases_query]"]
  have "list_databases example_config failing_server =
     (\<lparr>listing_status = ''error'',
       listing_message = Some (str_exn (Psycopg2Error ''permission denied'')),
       databases = [], count = None\<rparr>,
      [Connect (connect_args_of example_config ''postgres''), OpenCursor,
       Execute list_databases_query])"
    by blast
  ultimately show ?thesis
    by (simp add: str_exn_def)
qed

section \<open>The two timeouts\<close>




end
